theory Spec2Isabelle
  imports Main "HOL-Library.Sublist"
begin

section \<open>Python values\<close>

text \<open>
  The arguments of \<^verbatim>\<open>GraphQLSession.query\<close> are untyped Python objects. The values
  that the code inspects are modelled by a datatype: \<^verbatim>\<open>None\<close>, booleans, integers,
  strings, lists, tuples and dictionaries with string keys, all of which
  \<^verbatim>\<open>json.dumps\<close> can serialize. A dictionary is an association list in insertion
  order; a Python dictionary has no repeated key, which is the predicate \<open>dict_ok\<close>
  below. A string is a list of \<open>char\<close>, one per code point.
\<close>

datatype pyval =
    PNone
  | PBool bool
  | PInt int
  | PStr string
  | PList "pyval list"
  | PTuple "pyval list"
  | PDict "(string \<times> pyval) list"

type_synonym pydict = "(string \<times> pyval) list"

datatype error =
    ValueError string
  | AttributeError string
  | TypeError string
  | KeyError string

definition dict_ok :: "pydict \<Rightarrow> bool" where
  "dict_ok d = distinct (map fst d)"

definition quote :: "string \<Rightarrow> string" where
  "quote s = CHR 0x27 # s @ [CHR 0x27]"

fun type_name :: "pyval \<Rightarrow> string" where
  "type_name PNone = ''NoneType''"
| "type_name (PBool b) = ''bool''"
| "type_name (PInt i) = ''int''"
| "type_name (PStr s) = ''str''"
| "type_name (PList xs) = ''list''"
| "type_name (PTuple xs) = ''tuple''"
| "type_name (PDict d) = ''dict''"

text \<open>Truth value testing, as \<^verbatim>\<open>if x:\<close> and \<^verbatim>\<open>not x\<close> do it.\<close>

fun truthy :: "pyval \<Rightarrow> bool" where
  "truthy PNone = False"
| "truthy (PBool b) = b"
| "truthy (PInt i) = (i \<noteq> 0)"
| "truthy (PStr s) = (s \<noteq> [])"
| "truthy (PList xs) = (xs \<noteq> [])"
| "truthy (PTuple xs) = (xs \<noteq> [])"
| "truthy (PDict d) = (d \<noteq> [])"

text \<open>\<^verbatim>\<open>len(x)\<close>: a \<^verbatim>\<open>TypeError\<close> for an object without a length.\<close>

fun py_len :: "pyval \<Rightarrow> error + nat" where
  "py_len (PStr s) = Inr (length s)"
| "py_len (PList xs) = Inr (length xs)"
| "py_len (PTuple xs) = Inr (length xs)"
| "py_len (PDict d) = Inr (length d)"
| "py_len v = Inl (TypeError (''object of type '' @ quote (type_name v) @ '' has no len()''))"

definition no_attribute :: "string \<Rightarrow> string \<Rightarrow> error" where
  "no_attribute cls attr =
     AttributeError (quote cls @ '' object has no attribute '' @ quote attr)"

text \<open>\<^verbatim>\<open>x.keys()\<close> and \<^verbatim>\<open>x.values()\<close>: only a dictionary has them.\<close>

fun py_keys :: "pyval \<Rightarrow> error + string list" where
  "py_keys (PDict d) = Inr (map fst d)"
| "py_keys v = Inl (no_attribute (type_name v) ''keys'')"

fun py_values :: "pyval \<Rightarrow> error + pyval list" where
  "py_values (PDict d) = Inr (map snd d)"
| "py_values v = Inl (no_attribute (type_name v) ''values'')"

text \<open>\<^verbatim>\<open>d[key] = v\<close> on a dictionary: an existing key keeps its position.\<close>

definition dict_set :: "pydict \<Rightarrow> string \<Rightarrow> pyval \<Rightarrow> pydict" where
  "dict_set d key v =
     (if key \<in> set (map fst d)
      then map (\<lambda>(k, w). if k = key then (k, v) else (k, w)) d
      else d @ [(key, v)])"

text \<open>Sequencing of computations that may raise.\<close>

definition bind_err :: "error + 'a \<Rightarrow> ('a \<Rightarrow> error + 'b) \<Rightarrow> error + 'b" where
  "bind_err m f = (case m of Inl e \<Rightarrow> Inl e | Inr x \<Rightarrow> f x)"

section \<open>The underlying HTTP client\<close>

text \<open>
  The \<^verbatim>\<open>requests.Session\<close> held in \<^verbatim>\<open>self._session\<close> is an external collaborator.
  The model keeps what the wrapper can observe of it: the names for which
  \<^verbatim>\<open>hasattr\<close> holds, the trace of the calls made on it (method name, positional
  arguments, keyword arguments) and, as an opaque function, the outcome of each call
  (the response it returns or whatever it raises, of type \<open>'r\<close>).
\<close>

record invocation =
  meth :: string
  args :: "pyval list"
  kwargs :: "(string \<times> pyval) list"

record 'r Session =
  attributes :: "string list"
  calls :: "invocation list"
  respond :: "invocation \<Rightarrow> 'r"

definition hasattr :: "'r Session \<Rightarrow> string \<Rightarrow> bool" where
  "hasattr c item = (item \<in> set (attributes c))"

text \<open>\<^verbatim>\<open>client.<name>(*args, **kwargs)\<close>: the call is recorded and the client answers.\<close>

definition invoke ::
  "'r Session \<Rightarrow> string \<Rightarrow> pyval list \<Rightarrow> (string \<times> pyval) list \<Rightarrow> 'r \<times> 'r Session" where
  "invoke c name as kws =
     (let call = \<lparr>meth = name, args = as, kwargs = kws\<rparr>
      in (respond c call, c\<lparr>calls := calls c @ [call]\<rparr>))"

section \<open>GraphQLSession\<close>

record 'r GraphQLSession =
  uri :: string
  session :: "'r Session"

definition HTTP_VERBS :: "string list" where
  "HTTP_VERBS = [''get'', ''post'', ''put'', ''patch'', ''delete'', ''options'', ''head'']"

text \<open>\<^verbatim>\<open>__init__\<close>; the fresh \<^verbatim>\<open>Session()\<close> is a parameter.\<close>

definition init :: "string \<Rightarrow> 'r Session \<Rightarrow> 'r GraphQLSession" where
  "init u c = \<lparr>uri = u, session = c\<rparr>"

subsection \<open>Attribute delegation\<close>

text \<open>
  \<^verbatim>\<open>__getattr__\<close> returns either the client's own attribute or the local function
  \<^verbatim>\<open>f\<close>, a closure over \<^verbatim>\<open>self\<close> and \<^verbatim>\<open>item\<close>. Both are represented by what they
  refer to: \<open>ClientAttr item\<close> is \<^verbatim>\<open>getattr(self._session, item)\<close>, and \<open>UriClosure item\<close>
  is the closure \<^verbatim>\<open>f\<close> for that item. \<open>call_attr\<close> is the call of such a value.
\<close>

datatype attr_value = ClientAttr string | UriClosure string

definition client_getattr :: "'r Session \<Rightarrow> string \<Rightarrow> error + attr_value" where
  "client_getattr c item =
     (if hasattr c item then Inr (ClientAttr item)
      else Inl (no_attribute ''Session'' item))"

definition getattr :: "'r GraphQLSession \<Rightarrow> string \<Rightarrow> error + attr_value" where
  "getattr self item =
     (if \<not> hasattr (session self) item
      then Inl (AttributeError (''The Session class has no attribute '' @ quote item))
      else if item \<in> set HTTP_VERBS then Inr (UriClosure item)
      else Inr (ClientAttr item))"

fun call_attr ::
  "'r GraphQLSession \<Rightarrow> attr_value \<Rightarrow> pyval list \<Rightarrow> (string \<times> pyval) list
     \<Rightarrow> 'r \<times> 'r GraphQLSession" where
  "call_attr self (UriClosure item) as kws =
     (case invoke (session self) item (PStr (uri self) # as) kws of
        (r, c) \<Rightarrow> (r, self\<lparr>session := c\<rparr>))"
| "call_attr self (ClientAttr item) as kws =
     (case invoke (session self) item as kws of
        (r, c) \<Rightarrow> (r, self\<lparr>session := c\<rparr>))"

subsection \<open>query: validation\<close>

definition MSG_FILE_MAP :: string where
  "MSG_FILE_MAP = ''The file_map argument requires the variables and files arguments''"

definition MSG_FILES :: string where
  "MSG_FILES = ''The files argument requires the variables and file_map arguments''"

definition MSG_KEYS :: string where
  "MSG_KEYS = ''The file map and the files dictionary must have the same keys''"

definition MSG_TUPLE :: string where
  "MSG_TUPLE = ''The values of the files directory must be '' @
               ''3-tuples with the filename, the file object and '' @
               ''the content type''"

text \<open>Lines 131-141: have all required arguments been supplied?\<close>

definition check_presence :: "pyval \<Rightarrow> pyval \<Rightarrow> pyval \<Rightarrow> error + unit" where
  "check_presence variables file_map files =
     (if truthy file_map \<and> (\<not> truthy variables \<or> \<not> truthy files)
      then Inl (ValueError MSG_FILE_MAP)
      else if truthy files \<and> (\<not> truthy variables \<or> \<not> truthy file_map)
      then Inl (ValueError MSG_FILES)
      else Inr ())"

text \<open>Lines 143-150: are the files and the file map consistent?\<close>

definition check_keys :: "pyval \<Rightarrow> pyval \<Rightarrow> error + unit" where
  "check_keys file_map files =
     (if truthy file_map \<and> truthy files
      then bind_err (py_keys file_map) (\<lambda>file_map_keys.
           bind_err (py_keys files) (\<lambda>file_keys.
             if set file_map_keys \<noteq> set file_keys
             then Inl (ValueError MSG_KEYS)
             else Inr ()))
      else Inr ())"

text \<open>Lines 152-158: are the file values complete? The loop stops at the first raise.\<close>

fun check_values_loop :: "pyval list \<Rightarrow> error + unit" where
  "check_values_loop [] = Inr ()"
| "check_values_loop (v # vs) =
     bind_err (py_len v) (\<lambda>n.
       if n \<noteq> 3 then Inl (ValueError MSG_TUPLE) else check_values_loop vs)"

definition check_values :: "pyval \<Rightarrow> error + unit" where
  "check_values files =
     (if truthy files then bind_err (py_values files) check_values_loop else Inr ())"

definition validate :: "pyval \<Rightarrow> pyval \<Rightarrow> pyval \<Rightarrow> error + unit" where
  "validate variables file_map files =
     bind_err (check_presence variables file_map files) (\<lambda>_.
     bind_err (check_keys file_map files) (\<lambda>_.
       check_values files))"

subsection \<open>query: the request\<close>

text \<open>Line 161: \<^verbatim>\<open>not files or len(files) == 0\<close>.\<close>

definition no_files :: "pyval \<Rightarrow> error + bool" where
  "no_files files =
     (if \<not> truthy files then Inr True
      else bind_err (py_len files) (\<lambda>n. Inr (n = 0)))"

text \<open>Line 177: \<^verbatim>\<open>{key: files[key] for key in files.keys()}\<close>.\<close>

fun comprehension :: "pydict \<Rightarrow> string list \<Rightarrow> pydict \<Rightarrow> error + pydict" where
  "comprehension d [] acc = Inr acc"
| "comprehension d (key # keys) acc =
     (case map_of d key of
        None \<Rightarrow> Inl (KeyError key)
      | Some v \<Rightarrow> comprehension d keys (dict_set acc key v))"

definition file_data :: "pyval \<Rightarrow> error + pydict" where
  "file_data files =
     (case files of
        PDict d \<Rightarrow> comprehension d (map fst d) []
      | _ \<Rightarrow> Inl (no_attribute (type_name files) ''keys''))"

text \<open>
  Lines 160-179: the arguments of the one \<^verbatim>\<open>self._session.post\<close> call. \<^verbatim>\<open>json.dumps\<close>
  is library code and is the parameter \<open>dumps\<close>.
\<close>

definition post_arguments ::
  "(pyval \<Rightarrow> string) \<Rightarrow> string \<Rightarrow> string \<Rightarrow> pyval \<Rightarrow> pyval \<Rightarrow> pyval
     \<Rightarrow> error + (pyval list \<times> (string \<times> pyval) list)" where
  "post_arguments dumps u query_string variables file_map files =
     bind_err (no_files files) (\<lambda>nf.
       if nf
       then (let payload = [(''query'', PStr query_string)];
                 payload = (if truthy variables
                            then dict_set payload ''variables'' variables
                            else payload)
             in Inr ([PStr u], [(''json'', PDict payload)]))
       else (let operations = PDict [(''query'', PStr query_string),
                                     (''variables'', variables)];
                 data = PDict [(''operations'', PStr (dumps operations)),
                               (''map'', PStr (dumps file_map))]
             in bind_err (file_data files) (\<lambda>fd.
                  Inr ([PStr u], [(''data'', data), (''files'', PDict fd)]))))"

definition query ::
  "(pyval \<Rightarrow> string) \<Rightarrow> 'r GraphQLSession \<Rightarrow> string \<Rightarrow> pyval \<Rightarrow> pyval \<Rightarrow> pyval
     \<Rightarrow> (error + 'r) \<times> 'r GraphQLSession" where
  "query dumps self query_string variables file_map files =
     (case validate variables file_map files of
        Inl e \<Rightarrow> (Inl e, self)
      | Inr _ \<Rightarrow>
          (case post_arguments dumps (uri self) query_string variables file_map files of
             Inl e \<Rightarrow> (Inl e, self)
           | Inr (as, kws) \<Rightarrow>
               (case invoke (session self) ''post'' as kws of
                  (r, c) \<Rightarrow> (Inr r, self\<lparr>session := c\<rparr>))))"

subsection \<open>Vocabulary for the statements\<close>

text \<open>The call \<^verbatim>\<open>post(u, **kws)\<close> and the session after one more call on its client.\<close>

definition post_call :: "string \<Rightarrow> (string \<times> pyval) list \<Rightarrow> invocation" where
  "post_call u kws = \<lparr>meth = ''post'', args = [PStr u], kwargs = kws\<rparr>"

definition record_call :: "'r GraphQLSession \<Rightarrow> invocation \<Rightarrow> 'r GraphQLSession" where
  "record_call self call =
     self\<lparr>session := (session self)\<lparr>calls := calls (session self) @ [call]\<rparr>\<rparr>"

section \<open>A serializer and a session for the worked examples\<close>

text \<open>
  \<^verbatim>\<open>json.dumps\<close> with its default settings, on the values above: separators
  \<^verbatim>\<open>', '\<close> and \<^verbatim>\<open>': '\<close>, tuples as arrays, and every character outside the
  printable ASCII range escaped. A \<open>char\<close> stands for one code point below 256.
  \<open>query\<close> does not depend on it: it takes the serializer as a parameter.
\<close>

definition digit_char :: "nat \<Rightarrow> char" where
  "digit_char n = ''0123456789abcdef'' ! (n mod 16)"

fun decimal :: "nat \<Rightarrow> string" where
  "decimal n =
     (if n < 10 then [digit_char n] else decimal (n div 10) @ [digit_char (n mod 10)])"

definition escape_char :: "char \<Rightarrow> string" where
  "escape_char c =
     (if c = CHR 0x22 then [CHR 0x5C, CHR 0x22]
      else if c = CHR 0x5C then [CHR 0x5C, CHR 0x5C]
      else if c = CHR 0x08 then [CHR 0x5C, CHR ''b'']
      else if c = CHR 0x0C then [CHR 0x5C, CHR ''f'']
      else if c = CHR 0x0A then [CHR 0x5C, CHR ''n'']
      else if c = CHR 0x0D then [CHR 0x5C, CHR ''r'']
      else if c = CHR 0x09 then [CHR 0x5C, CHR ''t'']
      else if of_char c < (0x20 :: nat) \<or> (0x7E :: nat) < of_char c
      then [CHR 0x5C, CHR ''u'', CHR ''0'', CHR ''0'',
            digit_char (of_char c div 16), digit_char (of_char c mod 16)]
      else [c])"

definition json_string :: "string \<Rightarrow> string" where
  "json_string s = CHR 0x22 # concat (map escape_char s) @ [CHR 0x22]"

fun join :: "string \<Rightarrow> string list \<Rightarrow> string" where
  "join sep [] = []"
| "join sep [x] = x"
| "join sep (x # y # ys) = x @ sep @ join sep (y # ys)"

fun json_dumps :: "pyval \<Rightarrow> string" where
  "json_dumps PNone = ''null''"
| "json_dumps (PBool b) = (if b then ''true'' else ''false'')"
| "json_dumps (PInt i) =
     (if i < 0 then CHR ''-'' # decimal (nat (- i)) else decimal (nat i))"
| "json_dumps (PStr s) = json_string s"
| "json_dumps (PList xs) = ''['' @ join '', '' (map json_dumps xs) @ '']''"
| "json_dumps (PTuple xs) = ''['' @ join '', '' (map json_dumps xs) @ '']''"
| "json_dumps (PDict d) =
     ''{'' @ join '', ''
              (map (\<lambda>kv. json_string (fst kv) @ '': '' @ json_dumps (snd kv)) d) @ ''}''"

text \<open>The session of the test suite; its client answers every call alike.\<close>

definition TEST_URI :: string where
  "TEST_URI = ''http://fvmdolr.ac.za''"

definition test_client :: "string Session" where
  "test_client =
     \<lparr>attributes = [''get'', ''post'', ''put'', ''patch'', ''delete'', ''options'',
                    ''head'', ''request'', ''headers'', ''auth'', ''cookies'', ''close''],
      calls = [],
      respond = (\<lambda>_. ''fake response'')\<rparr>"

definition test_session :: "string GraphQLSession" where
  "test_session = init TEST_URI test_client"

section \<open>Auxiliary facts\<close>

lemma bind_err_Inl [simp]: "bind_err (Inl e) f = Inl e"
  by (simp add: bind_err_def)

lemma bind_err_Inr [simp]: "bind_err (Inr x) f = f x"
  by (simp add: bind_err_def)

lemma truthy_dict_keys: "truthy v \<Longrightarrow> py_keys v = Inr ks \<Longrightarrow> \<exists>d. v = PDict d \<and> d \<noteq> [] \<and> ks = map fst d"
  by (cases v) (auto simp: no_attribute_def)

lemma check_values_loop_first:
  assumes "\<forall>w\<in>set (map snd pre). py_len w = Inr 3"
  shows "check_values_loop (map snd (pre @ (k, v) # post)) =
           bind_err (py_len v) (\<lambda>n.
             if n \<noteq> 3 then Inl (ValueError MSG_TUPLE)
             else check_values_loop (map snd post))"
  using assms by (induction pre) simp_all

lemma check_values_loop_ok:
  "check_values_loop vs = Inr () \<longleftrightarrow> (\<forall>v\<in>set vs. py_len v = Inr 3)"
proof (induction vs)
  case Nil
  then show ?case by simp
next
  case (Cons v vs)
  then show ?case
    by (cases "py_len v") (auto split: if_splits)
qed

lemma dict_set_fresh: "key \<notin> set (map fst d) \<Longrightarrow> dict_set d key v = d @ [(key, v)]"
  by (simp add: dict_set_def)

lemma comprehension_append:
  assumes "distinct (map fst (acc @ rest))"
    and "\<forall>(k, v)\<in>set rest. map_of d k = Some v"
  shows "comprehension d (map fst rest) acc = Inr (acc @ rest)"
  using assms
proof (induction rest arbitrary: acc)
  case Nil
  then show ?case by simp
next
  case (Cons kv rest)
  obtain k v where kv: "kv = (k, v)" by (cases kv)
  from Cons.prems kv have look: "map_of d k = Some v" by simp
  from Cons.prems kv have fresh: "k \<notin> set (map fst acc)" by auto
  have "comprehension d (map fst rest) (acc @ [(k, v)]) = Inr ((acc @ [(k, v)]) @ rest)"
    using Cons.prems kv by (intro Cons.IH) auto
  then show ?case
    using look fresh kv by (simp add: dict_set_fresh)
qed

lemma file_data_dict_ok: "dict_ok d \<Longrightarrow> file_data (PDict d) = Inr d"
  using comprehension_append [of "[]" d d] by (auto simp: file_data_def dict_ok_def)

lemma presence_raises:
  "check_presence variables file_map files = Inl e \<Longrightarrow>
     validate variables file_map files = Inl e"
  by (simp add: validate_def)

lemma validate_no_files:
  "\<not> truthy files \<Longrightarrow>
     validate variables file_map files =
       (if truthy file_map then Inl (ValueError MSG_FILE_MAP) else Inr ())"
  by (simp add: validate_def check_presence_def check_keys_def check_values_def)

lemma validate_dicts:
  assumes "truthy variables" "fm \<noteq> []" "fs \<noteq> []"
  shows "validate variables (PDict fm) (PDict fs) =
           (if set (map fst fm) \<noteq> set (map fst fs) then Inl (ValueError MSG_KEYS)
            else check_values_loop (map snd fs))"
  using assms by (simp add: validate_def check_presence_def check_keys_def check_values_def)

lemma validate_files_ok:
  assumes "truthy files" "validate variables file_map files = Inr ()"
  shows "\<exists>fm fs. file_map = PDict fm \<and> files = PDict fs \<and> fm \<noteq> [] \<and> fs \<noteq> [] \<and>
           truthy variables \<and> set (map fst fm) = set (map fst fs) \<and>
           (\<forall>v\<in>set (map snd fs). py_len v = Inr 3)"
proof -
  from assms have pres: "truthy variables" "truthy file_map"
    by (auto simp: validate_def check_presence_def split: if_splits)
  from assms pres obtain ks where ks: "py_keys file_map = Inr ks"
    by (cases "py_keys file_map") (auto simp: validate_def check_presence_def check_keys_def)
  from assms pres ks obtain ks' where ks': "py_keys files = Inr ks'"
    by (cases "py_keys files") (auto simp: validate_def check_presence_def check_keys_def)
  from truthy_dict_keys [OF pres(2) ks] obtain fm where
    fm: "file_map = PDict fm" "fm \<noteq> []" by blast
  from truthy_dict_keys [OF assms(1) ks'] obtain fs where
    fs: "files = PDict fs" "fs \<noteq> []" by blast
  from assms(2) pres(1) fm fs have
    "set (map fst fm) = set (map fst fs) \<and> check_values_loop (map snd fs) = Inr ()"
    by (simp add: validate_dicts split: if_splits)
  with pres fm fs show ?thesis
    by (auto simp: check_values_loop_ok)
qed

lemma post_arguments_json:
  "\<not> truthy files \<Longrightarrow>
     post_arguments dumps u q variables file_map files =
       Inr ([PStr u],
            [(''json'', PDict (if truthy variables
                               then [(''query'', PStr q), (''variables'', variables)]
                               else [(''query'', PStr q)]))])"
  by (simp add: post_arguments_def no_files_def dict_set_def)

lemma post_arguments_multipart:
  "fs \<noteq> [] \<Longrightarrow> dict_ok fs \<Longrightarrow>
     post_arguments dumps u q variables file_map (PDict fs) =
       Inr ([PStr u],
            [(''data'', PDict [(''operations'',
                                 PStr (dumps (PDict [(''query'', PStr q),
                                                     (''variables'', variables)]))),
                               (''map'', PStr (dumps file_map))]),
             (''files'', PDict fs)])"
  by (simp add: post_arguments_def no_files_def file_data_dict_ok)

lemma query_raises:
  "validate variables file_map files = Inl e \<Longrightarrow>
     query dumps self q variables file_map files = (Inl e, self)"
  by (simp add: query_def)

lemma query_sends:
  assumes "validate variables file_map files = Inr ()"
    and "post_arguments dumps (uri self) q variables file_map files = Inr ([PStr (uri self)], kws)"
  shows "query dumps self q variables file_map files =
           (Inr (respond (session self) (post_call (uri self) kws)),
            record_call self (post_call (uri self) kws))"
  using assms by (simp add: query_def invoke_def post_call_def record_call_def Let_def)

lemma query_error_unchanged:
  "fst (query dumps self q variables file_map files) = Inl e \<Longrightarrow>
     snd (query dumps self q variables file_map files) = self"
  by (auto simp: query_def split: sum.splits prod.splits)

lemma sublist_msgs:
  "sublist ''variables'' MSG_FILE_MAP" "sublist ''files'' MSG_FILE_MAP"
  "sublist ''variables'' MSG_FILES" "sublist ''file_map'' MSG_FILES"
  "sublist ''same keys'' MSG_KEYS" "sublist ''3-tuple'' MSG_TUPLE"
  "\<not> sublist ''same keys'' MSG_TUPLE"
  by (simp_all add: MSG_FILE_MAP_def MSG_FILES_def MSG_KEYS_def MSG_TUPLE_def
        sublist_Cons_right)


lemma check_values_loop_error:
  "check_values_loop vs = Inl (ValueError msg) \<Longrightarrow> msg = MSG_TUPLE"
proof (induction vs)
  case Nil
  then show ?case by simp
next
  case (Cons v vs)
  then show ?case
    by (cases v) (auto split: if_splits)
qed

lemma validate_value_error:
  assumes "validate variables file_map files = Inl (ValueError msg)"
  shows "msg \<in> {MSG_FILE_MAP, MSG_FILES, MSG_KEYS, MSG_TUPLE}"
proof (cases "check_presence variables file_map files")
  case (Inl e)
  with assms show ?thesis
    by (auto simp: validate_def check_presence_def split: if_splits)
next
  case pres: (Inr u)
  show ?thesis
  proof (cases "check_keys file_map files")
    case (Inl e)
    with assms pres have "check_keys file_map files = Inl (ValueError msg)"
      by (simp add: validate_def)
    then show ?thesis
      by (cases file_map; cases files)
         (auto simp: check_keys_def no_attribute_def split: if_splits)
  next
    case (Inr u')
    with assms pres have "check_values files = Inl (ValueError msg)"
      by (simp add: validate_def)
    then have "msg = MSG_TUPLE"
      by (cases files)
         (auto simp: check_values_def no_attribute_def split: if_splits
               dest: check_values_loop_error)
    then show ?thesis by simp
  qed
qed

lemma comprehension_total:
  "set ks \<subseteq> fst ` set d \<Longrightarrow> \<exists>r. comprehension d ks acc = Inr r"
proof (induction ks arbitrary: acc)
  case Nil
  then show ?case by simp
next
  case (Cons k ks)
  then obtain v where "map_of d k = Some v"
    by (cases "map_of d k") (auto simp: map_of_eq_None_iff)
  with Cons show ?case by simp
qed

lemma post_arguments_dict_total:
  "\<exists>kws. post_arguments dumps u q variables file_map (PDict fs) = Inr ([PStr u], kws)"
proof -
  obtain r where "comprehension fs (map fst fs) [] = Inr r"
    using comprehension_total [of "map fst fs" fs "[]"] by auto
  then show ?thesis
    by (simp add: post_arguments_def no_files_def file_data_def Let_def)
qed

lemma post_arguments_total:
  assumes "validate variables file_map files = Inr ()"
  shows "\<exists>kws. post_arguments dumps u q variables file_map files = Inr ([PStr u], kws)"
proof (cases "truthy files")
  case True
  from validate_files_ok [OF True assms] obtain fs where "files = PDict fs" by blast
  then show ?thesis by (simp add: post_arguments_dict_total)
next
  case False
  then show ?thesis by (simp add: post_arguments_json)
qed

lemma query_error_from_validate:
  assumes "fst (query dumps self q variables file_map files) = Inl e"
  shows "validate variables file_map files = Inl e"
proof (cases "validate variables file_map files")
  case (Inl e')
  with assms show ?thesis by (simp add: query_def)
next
  case (Inr u)
  then have ok: "validate variables file_map files = Inr ()" by simp
  from post_arguments_total [OF ok] obtain kws where
    "post_arguments dumps (uri self) q variables file_map files = Inr ([PStr (uri self)], kws)"
    by blast
  from query_sends [OF ok this] assms show ?thesis by simp
qed

section \<open>Claims\<close>

text \<open>
  C1. Presence is truth value (\<^verbatim>\<open>if file_map:\<close>, \<^verbatim>\<open>not variables\<close>). Whenever
  \<open>file_map\<close> is given but \<open>variables\<close> or \<open>files\<close> is missing, or \<open>files\<close> is given but
  \<open>variables\<close> or \<open>file_map\<close> is missing, \<open>query\<close> raises a \<open>ValueError\<close> and the session
  is unchanged, so no request has been sent. The message is the one of the first check
  that fails, and each missing companion argument is named in it.
\<close>

theorem query_presence_error:
  assumes "truthy file_map \<and> (\<not> truthy variables \<or> \<not> truthy files) \<or>
           truthy files \<and> (\<not> truthy variables \<or> \<not> truthy file_map)"
  shows "\<exists>msg. query dumps self q variables file_map files = (Inl (ValueError msg), self) \<and>
           msg = (if truthy file_map then MSG_FILE_MAP else MSG_FILES) \<and>
           (\<not> truthy variables \<longrightarrow> sublist ''variables'' msg) \<and>
           (\<not> truthy files \<longrightarrow> sublist ''files'' msg) \<and>
           (\<not> truthy file_map \<longrightarrow> sublist ''file_map'' msg)"
proof -
  let ?msg = "if truthy file_map then MSG_FILE_MAP else MSG_FILES"
  from assms have "check_presence variables file_map files = Inl (ValueError ?msg)"
    by (auto simp: check_presence_def)
  then have "query dumps self q variables file_map files = (Inl (ValueError ?msg), self)"
    by (intro query_raises presence_raises)
  moreover from assms have "\<not> truthy files \<longrightarrow> truthy file_map" by auto
  ultimately show ?thesis
    using sublist_msgs by auto
qed

theorem query_presence_error_witness:
  "truthy (PDict [(''a'', PStr ''b'')]) \<and> \<not> truthy PNone \<and>
   query json_dumps test_session ''some query'' PNone (PDict [(''a'', PStr ''b'')]) PNone =
     (Inl (ValueError MSG_FILE_MAP), test_session) \<and>
   query json_dumps test_session ''some query'' (PDict [(''c'', PStr ''d'')]) PNone
       (PDict [(''a'', PStr ''b'')]) =
     (Inl (ValueError MSG_FILES), test_session)"
  using query_presence_error [where file_map = "PDict [(''a'', PStr ''b'')]"
          and variables = PNone and files = PNone and dumps = json_dumps
          and self = test_session and q = "''some query''"]
        query_presence_error [where file_map = PNone
          and variables = "PDict [(''c'', PStr ''d'')]"
          and files = "PDict [(''a'', PStr ''b'')]" and dumps = json_dumps
          and self = test_session and q = "''some query''"]
  by simp

text \<open>
  C2. With \<open>variables\<close> present and \<open>file_map\<close> and \<open>files\<close> both non-empty dictionaries
  (so that the presence checks pass): if the two key sets differ, \<open>query\<close> raises the
  \<open>ValueError\<close> whose message contains \<^verbatim>\<open>same keys\<close>, with the session unchanged;
  if they are equal, no \<open>ValueError\<close> that \<open>query\<close> raises mentions \<^verbatim>\<open>same keys\<close>.
\<close>

theorem query_key_sets:
  assumes "truthy variables" "fm \<noteq> []" "fs \<noteq> []"
  shows "(set (map fst fm) \<noteq> set (map fst fs) \<longrightarrow>
           query dumps self q variables (PDict fm) (PDict fs) =
             (Inl (ValueError MSG_KEYS), self)) \<and>
         sublist ''same keys'' MSG_KEYS \<and>
         (set (map fst fm) = set (map fst fs) \<longrightarrow>
           (\<forall>msg. fst (query dumps self q variables (PDict fm) (PDict fs)) =
                    Inl (ValueError msg) \<longrightarrow> \<not> sublist ''same keys'' msg))"
proof (intro conjI impI allI)
  assume "set (map fst fm) \<noteq> set (map fst fs)"
  with assms have "validate variables (PDict fm) (PDict fs) = Inl (ValueError MSG_KEYS)"
    by (simp add: validate_dicts)
  then show "query dumps self q variables (PDict fm) (PDict fs) =
               (Inl (ValueError MSG_KEYS), self)"
    by (rule query_raises)
next
  show "sublist ''same keys'' MSG_KEYS"
    by (rule sublist_msgs(5))
next
  fix msg
  assume same: "set (map fst fm) = set (map fst fs)"
    and "fst (query dumps self q variables (PDict fm) (PDict fs)) = Inl (ValueError msg)"
  then have "validate variables (PDict fm) (PDict fs) = Inl (ValueError msg)"
    by (intro query_error_from_validate)
  with assms same have "check_values_loop (map snd fs) = Inl (ValueError msg)"
    by (simp add: validate_dicts)
  then have "msg = MSG_TUPLE"
    by (rule check_values_loop_error)
  then show "\<not> sublist ''same keys'' msg"
    by (simp only: sublist_msgs(7) not_False_eq_True)
qed

theorem query_key_sets_witness:
  "query json_dumps test_session ''query { block { id } }''
     (PDict [(''proposal'', PNone), (''block'', PNone), (''target'', PNone)])
     (PDict [(''1'', PList [PStr ''variables.proposal'']),
             (''2'', PList [PStr ''variables.block''])])
     (PDict [(''0'', PTuple [PStr ''a'', PStr ''b'', PStr ''text/plain'']),
             (''1'', PTuple [PStr ''c'', PStr ''d'', PStr ''text/plain''])]) =
     (Inl (ValueError MSG_KEYS), test_session) \<and>
   fst (query json_dumps test_session ''query { block { id } }''
     (PDict [(''proposal'', PNone)])
     (PDict [(''0'', PList [PStr ''variables.proposal''])])
     (PDict [(''0'', PTuple [PStr ''a'', PStr ''b''])])) \<noteq> Inl (ValueError MSG_KEYS)"
proof -
  let ?fm = "[(''1'', PList [PStr ''variables.proposal'']),
              (''2'', PList [PStr ''variables.block''])]"
  let ?fs = "[(''0'', PTuple [PStr ''a'', PStr ''b'', PStr ''text/plain'']),
              (''1'', PTuple [PStr ''c'', PStr ''d'', PStr ''text/plain''])]"
  have "''2'' \<in> set (map fst ?fm)" "''2'' \<notin> set (map fst ?fs)"
    by simp_all
  then have differ: "set (map fst ?fm) \<noteq> set (map fst ?fs)"
    by blast
  have first: "query json_dumps test_session ''query { block { id } }''
     (PDict [(''proposal'', PNone), (''block'', PNone), (''target'', PNone)])
     (PDict ?fm) (PDict ?fs) = (Inl (ValueError MSG_KEYS), test_session)"
    using query_key_sets [of "PDict [(''proposal'', PNone), (''block'', PNone), (''target'', PNone)]"
            ?fm ?fs json_dumps test_session "''query { block { id } }''"] differ
    by simp
  have same: "set (map fst [(''0'', PList [PStr ''variables.proposal''])]) =
              set (map fst [(''0'', PTuple [PStr ''a'', PStr ''b''])])"
    by simp
  have second: "fst (query json_dumps test_session ''query { block { id } }''
     (PDict [(''proposal'', PNone)])
     (PDict [(''0'', PList [PStr ''variables.proposal''])])
     (PDict [(''0'', PTuple [PStr ''a'', PStr ''b''])])) \<noteq> Inl (ValueError MSG_KEYS)"
  proof -
    have h: "truthy (PDict [(''proposal'', PNone)])"
      "[(''0'', PList [PStr ''variables.proposal''])] \<noteq> []"
      "[(''0'', PTuple [PStr ''a'', PStr ''b''])] \<noteq> []"
      by simp_all
    from query_key_sets [OF h, of json_dumps test_session "''query { block { id } }''"] same
    show ?thesis by blast
  qed
  from first second show ?thesis by (rule conjI)
qed

text \<open>
  C3. The shape check calls \<^verbatim>\<open>len\<close> on the values of \<open>files\<close> in order and stops at
  the first value whose length is not 3. For a call that passes the presence and the
  key-set checks: if that first value has a length other than 3, \<open>query\<close> raises the
  \<open>ValueError\<close> whose message contains \<^verbatim>\<open>3-tuple\<close>; if it has no length at all,
  \<open>query\<close> raises the \<open>TypeError\<close> of \<^verbatim>\<open>len\<close>; in both cases the session is unchanged.
  If every value has length 3, the check raises nothing and \<open>query\<close> returns the
  client's answer.
\<close>

theorem query_file_entry_shape:
  assumes "check_presence variables file_map (PDict fs) = Inr ()"
    and "check_keys file_map (PDict fs) = Inr ()"
  shows "(fs = pre @ (k, v) # post \<and> (\<forall>w\<in>set (map snd pre). py_len w = Inr 3) \<longrightarrow>
           (\<forall>n. py_len v = Inr n \<and> n \<noteq> 3 \<longrightarrow>
              query dumps self q variables file_map (PDict fs) =
                (Inl (ValueError MSG_TUPLE), self)) \<and>
           (\<forall>e. py_len v = Inl e \<longrightarrow>
              query dumps self q variables file_map (PDict fs) = (Inl e, self))) \<and>
         sublist ''3-tuple'' MSG_TUPLE \<and>
         ((\<forall>w\<in>set (map snd fs). py_len w = Inr 3) \<longrightarrow>
           check_values (PDict fs) = Inr () \<and>
           (\<exists>r. fst (query dumps self q variables file_map (PDict fs)) = Inr r))"
proof -
  have val: "validate variables file_map (PDict fs) = check_values (PDict fs)"
    using assms by (simp add: validate_def)
  have first: "validate variables file_map (PDict fs) =
                 bind_err (py_len v) (\<lambda>n.
                   if n \<noteq> 3 then Inl (ValueError MSG_TUPLE)
                   else check_values_loop (map snd post))"
    if "fs = pre @ (k, v) # post" "\<forall>w\<in>set (map snd pre). py_len w = Inr 3"
    using that val check_values_loop_first [OF that(2), of k v post]
    by (simp add: check_values_def)
  have bad: "query dumps self q variables file_map (PDict fs) =
               (Inl (ValueError MSG_TUPLE), self)"
    if "fs = pre @ (k, v) # post" "\<forall>w\<in>set (map snd pre). py_len w = Inr 3"
      "py_len v = Inr n \<and> n \<noteq> 3" for n
  proof -
    from first [OF that(1,2)] that(3)
    have "validate variables file_map (PDict fs) = Inl (ValueError MSG_TUPLE)"
      by simp
    then show ?thesis by (rule query_raises)
  qed
  have unsized: "query dumps self q variables file_map (PDict fs) = (Inl e, self)"
    if "fs = pre @ (k, v) # post" "\<forall>w\<in>set (map snd pre). py_len w = Inr 3"
      "py_len v = Inl e" for e
  proof -
    from first [OF that(1,2)] that(3)
    have "validate variables file_map (PDict fs) = Inl e"
      by simp
    then show ?thesis by (rule query_raises)
  qed
  have good: "check_values (PDict fs) = Inr () \<and>
              (\<exists>r. fst (query dumps self q variables file_map (PDict fs)) = Inr r)"
    if "\<forall>w\<in>set (map snd fs). py_len w = Inr 3"
  proof -
    from that have "check_values_loop (map snd fs) = Inr ()"
      by (simp add: check_values_loop_ok)
    then have cv: "check_values (PDict fs) = Inr ()"
      by (simp add: check_values_def)
    with val have ok: "validate variables file_map (PDict fs) = Inr ()" by simp
    from post_arguments_total [OF ok] obtain kws where
      "post_arguments dumps (uri self) q variables file_map (PDict fs) =
         Inr ([PStr (uri self)], kws)"
      by blast
    from query_sends [OF ok this] cv show ?thesis by simp
  qed
  from bad unsized good show ?thesis
    using sublist_msgs(6) by blast
qed

theorem query_file_entry_shape_witness:
  "query json_dumps test_session ''query { block { id } }''
     (PDict [(''proposal'', PNone)])
     (PDict [(''0'', PList [PStr ''variables.proposal'']), (''1'', PList [])])
     (PDict [(''0'', PTuple [PStr ''a'', PStr ''b'']), (''1'', PNone)]) =
     (Inl (ValueError MSG_TUPLE), test_session) \<and>
   query json_dumps test_session ''query { block { id } }''
     (PDict [(''proposal'', PNone)])
     (PDict [(''0'', PList [PStr ''variables.proposal''])])
     (PDict [(''0'', PNone)]) =
     (Inl (TypeError (''object of type '' @ quote ''NoneType'' @ '' has no len()'')),
      test_session) \<and>
   (\<exists>r. fst (query json_dumps test_session ''query { block { id } }''
     (PDict [(''proposal'', PNone)])
     (PDict [(''0'', PList [PStr ''variables.proposal''])])
     (PDict [(''0'', PTuple [PStr ''a'', PStr ''b'', PStr ''text/plain''])])) = Inr r)"
proof -
  let ?v = "PDict [(''proposal'', PNone)]"
  let ?fm = "PDict [(''0'', PList [PStr ''variables.proposal''])]"
  let ?fm2 = "PDict [(''0'', PList [PStr ''variables.proposal'']), (''1'', PList [])]"
  let ?two = "[(''0'', PTuple [PStr ''a'', PStr ''b'']), (''1'', PNone)]"
  let ?none = "[(''0'', PNone)]"
  let ?three = "[(''0'', PTuple [PStr ''a'', PStr ''b'', PStr ''text/plain''])]"
  have p2: "check_presence ?v ?fm2 (PDict ?two) = Inr ()"
    and pn: "check_presence ?v ?fm (PDict ?none) = Inr ()"
    and p3: "check_presence ?v ?fm (PDict ?three) = Inr ()"
    by (simp_all add: check_presence_def)
  have k2: "check_keys ?fm2 (PDict ?two) = Inr ()"
    and kn: "check_keys ?fm (PDict ?none) = Inr ()"
    and k3: "check_keys ?fm (PDict ?three) = Inr ()"
    by (simp_all add: check_keys_def)
  have d2: "?two = [] @ (''0'', PTuple [PStr ''a'', PStr ''b'']) # [(''1'', PNone)] \<and>
            (\<forall>w\<in>set (map snd ([] :: pydict)). py_len w = Inr 3)"
    and dn: "?none = [] @ (''0'', PNone) # [] \<and>
            (\<forall>w\<in>set (map snd ([] :: pydict)). py_len w = Inr 3)"
    by simp_all
  have l2: "py_len (PTuple [PStr ''a'', PStr ''b'']) = Inr 2 \<and> (2 :: nat) \<noteq> 3"
    and ln: "py_len PNone =
               Inl (TypeError (''object of type '' @ quote ''NoneType'' @ '' has no len()''))"
    and good: "\<forall>w\<in>set (map snd ?three). py_len w = Inr 3"
    by simp_all
  from query_file_entry_shape [OF p2 k2, of "[]" "''0''" "PTuple [PStr ''a'', PStr ''b'']"
         "[(''1'', PNone)]" json_dumps test_session "''query { block { id } }''"] d2 l2
  have first: "query json_dumps test_session ''query { block { id } }'' ?v ?fm2 (PDict ?two) =
                 (Inl (ValueError MSG_TUPLE), test_session)"
    by blast
  from query_file_entry_shape [OF pn kn, of "[]" "''0''" PNone "[]" json_dumps test_session
         "''query { block { id } }''"] dn ln
  have second: "query json_dumps test_session ''query { block { id } }'' ?v ?fm (PDict ?none) =
      (Inl (TypeError (''object of type '' @ quote ''NoneType'' @ '' has no len()'')),
       test_session)"
    by blast
  from query_file_entry_shape [OF p3 k3, of "[]" "''0''" PNone "[]" json_dumps test_session
         "''query { block { id } }''"] good
  have third: "\<exists>r. fst (query json_dumps test_session ''query { block { id } }'' ?v ?fm
                   (PDict ?three)) = Inr r"
    by blast
  from first second third show ?thesis by blast
qed

text \<open>
  A value without a length is not reported as a malformed entry: with the entry
  \<^verbatim>\<open>None\<close> the presence and key-set checks pass, and the outcome is the \<open>TypeError\<close>
  of \<^verbatim>\<open>len\<close>, not the \<open>ValueError\<close> about 3-tuples.
\<close>

theorem query_file_entry_shape_counterexample:
  "check_presence (PDict [(''proposal'', PNone)])
     (PDict [(''0'', PList [PStr ''variables.proposal''])]) (PDict [(''0'', PNone)]) = Inr () \<and>
   check_keys (PDict [(''0'', PList [PStr ''variables.proposal''])])
     (PDict [(''0'', PNone)]) = Inr () \<and>
   py_len PNone \<noteq> Inr 3 \<and>
   fst (query json_dumps test_session ''query { block { id } }''
     (PDict [(''proposal'', PNone)])
     (PDict [(''0'', PList [PStr ''variables.proposal''])])
     (PDict [(''0'', PNone)])) =
     Inl (TypeError (''object of type '' @ quote ''NoneType'' @ '' has no len()'')) \<and>
   fst (query json_dumps test_session ''query { block { id } }''
     (PDict [(''proposal'', PNone)])
     (PDict [(''0'', PList [PStr ''variables.proposal''])])
     (PDict [(''0'', PNone)])) \<noteq> Inl (ValueError MSG_TUPLE)"
proof -
  have "validate (PDict [(''proposal'', PNone)])
          (PDict [(''0'', PList [PStr ''variables.proposal''])]) (PDict [(''0'', PNone)]) =
        Inl (TypeError (''object of type '' @ quote ''NoneType'' @ '' has no len()''))"
    by (simp add: validate_dicts)
  from query_raises [OF this, of json_dumps test_session "''query { block { id } }''"]
  show ?thesis
    by (simp add: check_presence_def check_keys_def)
qed

text \<open>
  C4. When \<open>files\<close> is absent or empty and validation passes, \<open>query\<close> makes exactly
  one call on the client: \<^verbatim>\<open>post(uri, json=payload)\<close> with the bound URI, where
  \<open>payload\<close> maps \<^verbatim>\<open>query\<close> to the query string and has the key \<^verbatim>\<open>variables\<close>,
  bound to the given variables, exactly when \<open>variables\<close> is truthy. The result is
  the client's answer to that call.
\<close>

theorem query_json_request:
  assumes "\<not> truthy files" and "validate variables file_map files = Inr ()"
  shows "(let payload = (if truthy variables
                         then [(''query'', PStr q), (''variables'', variables)]
                         else [(''query'', PStr q)]);
              call = post_call (uri self) [(''json'', PDict payload)]
          in query dumps self q variables file_map files =
               (Inr (respond (session self) call), record_call self call) \<and>
             calls (session (snd (query dumps self q variables file_map files))) =
               calls (session self) @ [call])"
proof -
  let ?payload = "if truthy variables
                  then [(''query'', PStr q), (''variables'', variables)]
                  else [(''query'', PStr q)]"
  let ?call = "post_call (uri self) [(''json'', PDict ?payload)]"
  have "post_arguments dumps (uri self) q variables file_map files =
          Inr ([PStr (uri self)], [(''json'', PDict ?payload)])"
    using assms(1) by (rule post_arguments_json)
  from query_sends [OF assms(2) this]
  have "query dumps self q variables file_map files =
          (Inr (respond (session self) ?call), record_call self ?call)" .
  then show ?thesis
    by (simp add: Let_def record_call_def)
qed

theorem query_json_request_witness:
  "query json_dumps test_session ''query { greet }'' PNone PNone PNone =
     (Inr ''fake response'',
      record_call test_session
        (post_call TEST_URI [(''json'', PDict [(''query'', PStr ''query { greet }'')])])) \<and>
   query json_dumps test_session ''query { greet }'' (PDict [(''name'', PStr ''John Doe'')])
       PNone (PDict []) =
     (Inr ''fake response'',
      record_call test_session
        (post_call TEST_URI
           [(''json'', PDict [(''query'', PStr ''query { greet }''),
                              (''variables'', PDict [(''name'', PStr ''John Doe'')])])]))"
proof -
  have f: "\<not> truthy PNone" "\<not> truthy (PDict [])"
    by simp_all
  have v: "validate PNone PNone PNone = Inr ()"
    "validate (PDict [(''name'', PStr ''John Doe'')]) PNone (PDict []) = Inr ()"
    by (simp_all add: validate_no_files)
  have u: "uri test_session = TEST_URI"
    "respond (session test_session) = (\<lambda>_. ''fake response'')"
    by (simp_all add: test_session_def init_def test_client_def)
  from query_json_request [OF f(1) v(1), of "''query { greet }''" test_session json_dumps]
       query_json_request [OF f(2) v(2), of "''query { greet }''" test_session json_dumps]
  show ?thesis
    by (simp add: Let_def u)
qed

text \<open>
  C5. When \<open>files\<close> is a non-empty dictionary and validation passes, \<open>query\<close> makes
  exactly one call on the client: \<^verbatim>\<open>post(uri, data=data, files=files)\<close> with the bound
  URI. \<open>data\<close> has the two fields \<^verbatim>\<open>operations\<close>, the serialization of the query
  string and the variables as given, and \<^verbatim>\<open>map\<close>, the serialization of \<open>file_map\<close>
  as given; the file parts are the entries of \<open>files\<close>, key by key, each of length 3.
\<close>

theorem query_multipart_request:
  assumes "fs \<noteq> []" and "dict_ok fs"
    and "validate variables file_map (PDict fs) = Inr ()"
  shows "(let operations = PDict [(''query'', PStr q), (''variables'', variables)];
              data = PDict [(''operations'', PStr (dumps operations)),
                            (''map'', PStr (dumps file_map))];
              call = post_call (uri self) [(''data'', data), (''files'', PDict fs)]
          in query dumps self q variables file_map (PDict fs) =
               (Inr (respond (session self) call), record_call self call) \<and>
             calls (session (snd (query dumps self q variables file_map (PDict fs)))) =
               calls (session self) @ [call]) \<and>
         (\<forall>v\<in>set (map snd fs). py_len v = Inr 3)"
proof -
  let ?data = "PDict [(''operations'',
                        PStr (dumps (PDict [(''query'', PStr q), (''variables'', variables)]))),
                      (''map'', PStr (dumps file_map))]"
  let ?call = "post_call (uri self) [(''data'', ?data), (''files'', PDict fs)]"
  have "post_arguments dumps (uri self) q variables file_map (PDict fs) =
          Inr ([PStr (uri self)], [(''data'', ?data), (''files'', PDict fs)])"
    using assms(1,2) by (rule post_arguments_multipart)
  from query_sends [OF assms(3) this]
  have sent: "query dumps self q variables file_map (PDict fs) =
          (Inr (respond (session self) ?call), record_call self ?call)" .
  have "truthy (PDict fs)"
    using assms(1) by simp
  from validate_files_ok [OF this assms(3)]
  have "\<forall>v\<in>set (map snd fs). py_len v = Inr 3"
    by auto
  with sent show ?thesis
    by (simp add: Let_def record_call_def)
qed

theorem query_multipart_request_witness:
  "query json_dumps test_session ''query hello''
     (PDict [(''name'', PStr ''John Doe'')])
     (PDict [(''0'', PStr ''[variables.message]'')])
     (PDict [(''0'', PTuple [PStr ''message.txt'', PStr ''Welcome to the event!'',
                             PStr ''text/plain''])]) =
   (Inr ''fake response'',
    record_call test_session
      (post_call TEST_URI
        [(''data'',
          PDict [(''operations'',
                  PStr (json_dumps (PDict [(''query'', PStr ''query hello''),
                           (''variables'', PDict [(''name'', PStr ''John Doe'')])]))),
                 (''map'', PStr (json_dumps (PDict [(''0'', PStr ''[variables.message]'')])))]),
         (''files'',
          PDict [(''0'', PTuple [PStr ''message.txt'', PStr ''Welcome to the event!'',
                                 PStr ''text/plain''])])]))"
proof -
  let ?fs = "[(''0'', PTuple [PStr ''message.txt'', PStr ''Welcome to the event!'',
                              PStr ''text/plain''])]"
  have h: "?fs \<noteq> []" "dict_ok ?fs"
    by (simp_all add: dict_ok_def)
  have v: "validate (PDict [(''name'', PStr ''John Doe'')])
             (PDict [(''0'', PStr ''[variables.message]'')]) (PDict ?fs) = Inr ()"
    by (simp add: validate_dicts)
  have u: "uri test_session = TEST_URI"
    "respond (session test_session) = (\<lambda>_. ''fake response'')"
    by (simp_all add: test_session_def init_def test_client_def)
  from query_multipart_request [OF h v, of "''query hello''" json_dumps test_session]
  show ?thesis
    by (simp only: Let_def u)
qed

text \<open>
  C6. Validation comes before any network I/O. An error of the validation is the
  outcome of \<open>query\<close> with the session unchanged; every error that \<open>query\<close> raises is
  an error of the validation and leaves the client's call trace as it was; every
  \<open>ValueError\<close> carries one of the four validation messages; and a call is made on
  the client only when all three validation steps have passed.
\<close>

theorem validation_before_io:
  "(validate variables file_map files = Inl e \<longrightarrow>
      query dumps self q variables file_map files = (Inl e, self)) \<and>
   (fst (query dumps self q variables file_map files) = Inl e \<longrightarrow>
      validate variables file_map files = Inl e \<and>
      snd (query dumps self q variables file_map files) = self \<and>
      calls (session (snd (query dumps self q variables file_map files))) =
        calls (session self)) \<and>
   (fst (query dumps self q variables file_map files) = Inl (ValueError msg) \<longrightarrow>
      msg \<in> {MSG_FILE_MAP, MSG_FILES, MSG_KEYS, MSG_TUPLE}) \<and>
   (calls (session (snd (query dumps self q variables file_map files))) \<noteq>
      calls (session self) \<longrightarrow>
      validate variables file_map files = Inr ())"
proof (intro conjI impI)
  assume "validate variables file_map files = Inl e"
  then show "query dumps self q variables file_map files = (Inl e, self)"
    by (rule query_raises)
next
  assume err: "fst (query dumps self q variables file_map files) = Inl e"
  then show "validate variables file_map files = Inl e"
    by (rule query_error_from_validate)
  from err show same: "snd (query dumps self q variables file_map files) = self"
    by (rule query_error_unchanged)
  then show "calls (session (snd (query dumps self q variables file_map files))) =
               calls (session self)"
    by simp
next
  assume "fst (query dumps self q variables file_map files) = Inl (ValueError msg)"
  then have "validate variables file_map files = Inl (ValueError msg)"
    by (rule query_error_from_validate)
  then show "msg \<in> {MSG_FILE_MAP, MSG_FILES, MSG_KEYS, MSG_TUPLE}"
    by (rule validate_value_error)
next
  assume changed: "calls (session (snd (query dumps self q variables file_map files))) \<noteq>
                     calls (session self)"
  show "validate variables file_map files = Inr ()"
  proof (cases "validate variables file_map files")
    case (Inl e')
    then have "query dumps self q variables file_map files = (Inl e', self)"
      by (rule query_raises)
    with changed show ?thesis by simp
  next
    case (Inr u)
    then show ?thesis by simp
  qed
qed

theorem validation_before_io_witness:
  "validate PNone (PDict [(''a'', PStr ''b'')]) PNone = Inl (ValueError MSG_FILE_MAP) \<and>
   query json_dumps test_session ''some query'' PNone (PDict [(''a'', PStr ''b'')]) PNone =
     (Inl (ValueError MSG_FILE_MAP), test_session) \<and>
   calls (session (snd (query json_dumps test_session ''some query'' PNone PNone PNone))) \<noteq>
     calls (session test_session) \<and>
   validate PNone PNone PNone = Inr ()"
proof -
  have v: "validate PNone (PDict [(''a'', PStr ''b'')]) PNone = Inl (ValueError MSG_FILE_MAP)"
    by (simp add: validate_no_files)
  have "post_arguments json_dumps (uri test_session) ''some query'' PNone PNone PNone =
          Inr ([PStr (uri test_session)], [(''json'', PDict [(''query'', PStr ''some query'')])])"
    by (simp add: post_arguments_json)
  from query_sends [OF _ this]
  have c: "calls (session (snd (query json_dumps test_session ''some query'' PNone PNone PNone)))
             \<noteq> calls (session test_session)"
    by (simp add: validate_no_files record_call_def)
  from validation_before_io [of PNone "PDict [(''a'', PStr ''b'')]" PNone
         "ValueError MSG_FILE_MAP" json_dumps test_session "''some query''" MSG_FILE_MAP]
       validation_before_io [of PNone PNone PNone
         "ValueError MSG_FILE_MAP" json_dumps test_session "''some query''" MSG_FILE_MAP]
       v c
  show ?thesis
    by blast
qed

text \<open>
  C7. For every name among the seven HTTP verbs that the client possesses,
  \<^verbatim>\<open>__getattr__\<close> returns a callable, and calling it with any positional and keyword
  arguments is the call \<^verbatim>\<open>client.<verb>(uri, *args, **kwargs)\<close>: the bound URI is the
  first positional argument, the caller's arguments follow unchanged, and that one
  call is recorded on the client.
\<close>

theorem verb_delegation:
  assumes "item \<in> set HTTP_VERBS" and "hasattr (session self) item"
  shows "\<exists>f. getattr self item = Inr f \<and>
           (\<forall>as kws.
              call_attr self f as kws =
                call_attr self (ClientAttr item) (PStr (uri self) # as) kws \<and>
              call_attr self f as kws =
                (respond (session self)
                   \<lparr>meth = item, args = PStr (uri self) # as, kwargs = kws\<rparr>,
                 record_call self
                   \<lparr>meth = item, args = PStr (uri self) # as, kwargs = kws\<rparr>))"
proof -
  from assms have "getattr self item = Inr (UriClosure item)"
    by (simp add: getattr_def)
  moreover have "call_attr self (UriClosure item) as kws =
                   call_attr self (ClientAttr item) (PStr (uri self) # as) kws" for as kws
    by simp
  moreover have "call_attr self (UriClosure item) as kws =
      (respond (session self) \<lparr>meth = item, args = PStr (uri self) # as, kwargs = kws\<rparr>,
       record_call self \<lparr>meth = item, args = PStr (uri self) # as, kwargs = kws\<rparr>)"
    for as kws
    by (simp add: invoke_def record_call_def Let_def)
  ultimately show ?thesis by blast
qed

theorem verb_delegation_witness:
  "''get'' \<in> set HTTP_VERBS \<and> hasattr (session test_session) ''get'' \<and>
   (\<exists>f. getattr test_session ''get'' = Inr f \<and>
        call_attr test_session f [] [] =
          (''fake response'',
           record_call test_session \<lparr>meth = ''get'', args = [PStr TEST_URI], kwargs = []\<rparr>))"
proof -
  have h: "''get'' \<in> set HTTP_VERBS" "hasattr (session test_session) ''get''"
    by (simp_all add: HTTP_VERBS_def hasattr_def test_session_def init_def test_client_def)
  have u: "uri test_session = TEST_URI"
    "respond (session test_session) = (\<lambda>_. ''fake response'')"
    by (simp_all add: test_session_def init_def test_client_def)
  from verb_delegation [OF h] obtain f where
    "getattr test_session ''get'' = Inr f"
    "call_attr test_session f [] [] =
       (respond (session test_session)
          \<lparr>meth = ''get'', args = PStr (uri test_session) # [], kwargs = []\<rparr>,
        record_call test_session
          \<lparr>meth = ''get'', args = PStr (uri test_session) # [], kwargs = []\<rparr>)"
    by blast
  with h u show ?thesis by auto
qed

text \<open>
  C8. Python calls \<^verbatim>\<open>__getattr__\<close> for the names that the session does not define
  itself. For such a name that the client lacks too, the access raises an
  \<open>AttributeError\<close> whose message contains the name; for a name that the client
  possesses and that is not an HTTP verb, the access returns the client's attribute.
\<close>

theorem unknown_capability:
  "(\<not> hasattr (session self) item \<longrightarrow>
      (\<exists>msg. getattr self item = Inl (AttributeError msg) \<and> sublist item msg)) \<and>
   (hasattr (session self) item \<and> item \<notin> set HTTP_VERBS \<longrightarrow>
      getattr self item = Inr (ClientAttr item) \<and>
      getattr self item = client_getattr (session self) item)"
proof (intro conjI impI)
  assume "\<not> hasattr (session self) item"
  then have "getattr self item =
      Inl (AttributeError (''The Session class has no attribute '' @ quote item))"
    by (simp add: getattr_def)
  moreover have "sublist item (''The Session class has no attribute '' @ quote item)"
    unfolding quote_def sublist_def
    by (intro exI [of _ "''The Session class has no attribute '' @ [CHR 0x27]"]
              exI [of _ "[CHR 0x27]"]) simp
  ultimately show "\<exists>msg. getattr self item = Inl (AttributeError msg) \<and> sublist item msg"
    by blast
next
  assume h: "hasattr (session self) item \<and> item \<notin> set HTTP_VERBS"
  then show "getattr self item = Inr (ClientAttr item)"
    by (simp add: getattr_def)
  from h show "getattr self item = client_getattr (session self) item"
    by (simp add: getattr_def client_getattr_def)
qed

theorem unknown_capability_witness:
  "\<not> hasattr (session test_session) ''fetch'' \<and>
   (\<exists>msg. getattr test_session ''fetch'' = Inl (AttributeError msg) \<and>
          sublist ''fetch'' msg) \<and>
   hasattr (session test_session) ''headers'' \<and> ''headers'' \<notin> set HTTP_VERBS \<and>
   getattr test_session ''headers'' = Inr (ClientAttr ''headers'')"
proof -
  have a: "\<not> hasattr (session test_session) ''fetch''"
    and b: "hasattr (session test_session) ''headers'' \<and> ''headers'' \<notin> set HTTP_VERBS"
    by (simp_all add: HTTP_VERBS_def hasattr_def test_session_def init_def test_client_def)
  from unknown_capability [of test_session "''fetch''"]
       unknown_capability [of test_session "''headers''"] a b
  show ?thesis by blast
qed

text \<open>
  C9. Presence means truth value, not that the argument was supplied. When \<open>file_map\<close>
  and \<open>files\<close> are each \<^verbatim>\<open>None\<close> or an empty dictionary, validation raises nothing
  whatever \<open>variables\<close> is, and the JSON request is sent. When \<open>files\<close> is non-empty and
  \<open>variables\<close> or \<open>file_map\<close> is an empty dictionary, \<open>query\<close> raises the \<open>ValueError\<close> of
  a presence check and the session is unchanged.
\<close>

theorem presence_is_truthiness:
  "((file_map = PNone \<or> file_map = PDict []) \<and> (files = PNone \<or> files = PDict []) \<longrightarrow>
      validate variables file_map files = Inr () \<and>
      (let payload = (if truthy variables
                      then [(''query'', PStr q), (''variables'', variables)]
                      else [(''query'', PStr q)]);
           call = post_call (uri self) [(''json'', PDict payload)]
       in query dumps self q variables file_map files =
            (Inr (respond (session self) call), record_call self call))) \<and>
   (truthy files \<and> (variables = PDict [] \<or> file_map = PDict []) \<longrightarrow>
      (\<exists>msg. query dumps self q variables file_map files = (Inl (ValueError msg), self) \<and>
             (msg = MSG_FILE_MAP \<or> msg = MSG_FILES)))"
proof (intro conjI impI)
  assume empty: "(file_map = PNone \<or> file_map = PDict []) \<and>
                 (files = PNone \<or> files = PDict [])"
  then have falsy: "\<not> truthy file_map" "\<not> truthy files"
    by auto
  then show ok: "validate variables file_map files = Inr ()"
    by (simp add: validate_no_files)
  let ?payload = "if truthy variables
                  then [(''query'', PStr q), (''variables'', variables)]
                  else [(''query'', PStr q)]"
  have "post_arguments dumps (uri self) q variables file_map files =
          Inr ([PStr (uri self)], [(''json'', PDict ?payload)])"
    using falsy(2) by (rule post_arguments_json)
  from query_sends [OF ok this]
  show "(let payload = ?payload;
             call = post_call (uri self) [(''json'', PDict payload)]
         in query dumps self q variables file_map files =
              (Inr (respond (session self) call), record_call self call))"
    by (simp add: Let_def)
next
  assume h: "truthy files \<and> (variables = PDict [] \<or> file_map = PDict [])"
  let ?msg = "if truthy file_map then MSG_FILE_MAP else MSG_FILES"
  from h have "check_presence variables file_map files = Inl (ValueError ?msg)"
    by (auto simp: check_presence_def)
  then have "query dumps self q variables file_map files = (Inl (ValueError ?msg), self)"
    by (intro query_raises presence_raises)
  then show "\<exists>msg. query dumps self q variables file_map files = (Inl (ValueError msg), self) \<and>
               (msg = MSG_FILE_MAP \<or> msg = MSG_FILES)"
    by auto
qed

theorem presence_is_truthiness_witness:
  "query json_dumps test_session ''query { greet }'' (PDict [(''c'', PStr ''d'')])
     (PDict []) (PDict []) =
     (Inr ''fake response'',
      record_call test_session
        (post_call TEST_URI
           [(''json'', PDict [(''query'', PStr ''query { greet }''),
                              (''variables'', PDict [(''c'', PStr ''d'')])])])) \<and>
   (\<exists>msg. query json_dumps test_session ''query { greet }'' (PDict [])
            (PDict [(''0'', PList [PStr ''variables.f''])])
            (PDict [(''0'', PTuple [PStr ''a'', PStr ''b'', PStr ''text/plain''])]) =
            (Inl (ValueError msg), test_session) \<and>
          (msg = MSG_FILE_MAP \<or> msg = MSG_FILES)) \<and>
   (\<exists>msg. query json_dumps test_session ''query { greet }'' (PDict [(''c'', PStr ''d'')])
            (PDict [])
            (PDict [(''0'', PTuple [PStr ''a'', PStr ''b'', PStr ''text/plain''])]) =
            (Inl (ValueError msg), test_session) \<and>
          (msg = MSG_FILE_MAP \<or> msg = MSG_FILES))"
proof -
  let ?fs = "PDict [(''0'', PTuple [PStr ''a'', PStr ''b'', PStr ''text/plain''])]"
  have u: "uri test_session = TEST_URI"
    "respond (session test_session) = (\<lambda>_. ''fake response'')"
    by (simp_all add: test_session_def init_def test_client_def)
  have t: "truthy ?fs" "truthy (PDict [(''c'', PStr ''d'')])"
    by simp_all
  from presence_is_truthiness [of "PDict []" "PDict []" "PDict [(''c'', PStr ''d'')]"
         "''query { greet }''" test_session json_dumps]
  have first: "query json_dumps test_session ''query { greet }'' (PDict [(''c'', PStr ''d'')])
     (PDict []) (PDict []) =
     (Inr ''fake response'',
      record_call test_session
        (post_call TEST_URI
           [(''json'', PDict [(''query'', PStr ''query { greet }''),
                              (''variables'', PDict [(''c'', PStr ''d'')])])]))"
    by (simp add: Let_def u)
  from presence_is_truthiness [of "PDict [(''0'', PList [PStr ''variables.f''])]" ?fs
         "PDict []" "''query { greet }''" test_session json_dumps] t
  have second: "\<exists>msg. query json_dumps test_session ''query { greet }'' (PDict [])
            (PDict [(''0'', PList [PStr ''variables.f''])]) ?fs =
            (Inl (ValueError msg), test_session) \<and>
          (msg = MSG_FILE_MAP \<or> msg = MSG_FILES)"
    by blast
  from presence_is_truthiness [of "PDict []" ?fs
         "PDict [(''c'', PStr ''d'')]" "''query { greet }''" test_session json_dumps] t
  have third: "\<exists>msg. query json_dumps test_session ''query { greet }''
            (PDict [(''c'', PStr ''d'')]) (PDict []) ?fs =
            (Inl (ValueError msg), test_session) \<and>
          (msg = MSG_FILE_MAP \<or> msg = MSG_FILES)"
    by blast
  from first second third show ?thesis by blast
qed

text \<open>
  C10. The values of \<open>file_map\<close> are never inspected: validation depends on \<open>file_map\<close>
  only through its key set, and whatever the values are (a plain string, say),
  \<open>file_map\<close> is serialized as it is into the field \<^verbatim>\<open>map\<close>. The shape check on
  \<open>files\<close> accepts every value of length 3, a string of three characters included.
\<close>

theorem no_shape_validation:
  "(set (map fst fm) = set (map fst fm') \<longrightarrow>
      validate variables (PDict fm) files = validate variables (PDict fm') files) \<and>
   (truthy variables \<and> fs \<noteq> [] \<and> dict_ok fs \<and> set (map fst fm) = set (map fst fs) \<and>
    (\<forall>v\<in>set (map snd fs). py_len v = Inr 3) \<longrightarrow>
      (let operations = PDict [(''query'', PStr q), (''variables'', variables)];
           data = PDict [(''operations'', PStr (dumps operations)),
                         (''map'', PStr (dumps (PDict fm)))];
           call = post_call (uri self) [(''data'', data), (''files'', PDict fs)]
       in query dumps self q variables (PDict fm) (PDict fs) =
            (Inr (respond (session self) call), record_call self call))) \<and>
   (length s = 3 \<longrightarrow> py_len (PStr s) = Inr 3 \<and> check_values (PDict [(key, PStr s)]) = Inr ())"
proof (intro conjI impI)
  assume same: "set (map fst fm) = set (map fst fm')"
  then have "(fm = []) = (fm' = [])"
    by (metis map_is_Nil_conv set_empty)
  with same show "validate variables (PDict fm) files = validate variables (PDict fm') files"
    by (simp add: validate_def check_presence_def check_keys_def)
next
  assume h: "truthy variables \<and> fs \<noteq> [] \<and> dict_ok fs \<and>
             set (map fst fm) = set (map fst fs) \<and>
             (\<forall>v\<in>set (map snd fs). py_len v = Inr 3)"
  then have "fm \<noteq> []"
    by (metis map_is_Nil_conv set_empty)
  with h have ok: "validate variables (PDict fm) (PDict fs) = Inr ()"
    by (simp add: validate_dicts check_values_loop_ok)
  from h have "post_arguments dumps (uri self) q variables (PDict fm) (PDict fs) =
      Inr ([PStr (uri self)],
           [(''data'', PDict [(''operations'',
                                PStr (dumps (PDict [(''query'', PStr q),
                                                    (''variables'', variables)]))),
                              (''map'', PStr (dumps (PDict fm)))]),
            (''files'', PDict fs)])"
    by (intro post_arguments_multipart) simp_all
  from query_sends [OF ok this]
  show "(let operations = PDict [(''query'', PStr q), (''variables'', variables)];
             data = PDict [(''operations'', PStr (dumps operations)),
                           (''map'', PStr (dumps (PDict fm)))];
             call = post_call (uri self) [(''data'', data), (''files'', PDict fs)]
         in query dumps self q variables (PDict fm) (PDict fs) =
              (Inr (respond (session self) call), record_call self call))"
    by (simp add: Let_def)
next
  assume "length s = 3"
  then show "py_len (PStr s) = Inr 3" by simp
next
  assume "length s = 3"
  then show "check_values (PDict [(key, PStr s)]) = Inr ()"
    by (simp add: check_values_def)
qed

theorem no_shape_validation_witness:
  "validate (PDict [(''name'', PStr ''John Doe'')])
     (PDict [(''0'', PStr ''[variables.message]'')]) (PDict [(''0'', PStr ''abc'')]) =
   validate (PDict [(''name'', PStr ''John Doe'')])
     (PDict [(''0'', PInt 7)]) (PDict [(''0'', PStr ''abc'')]) \<and>
   query json_dumps test_session ''query hello'' (PDict [(''name'', PStr ''John Doe'')])
     (PDict [(''0'', PStr ''[variables.message]'')]) (PDict [(''0'', PStr ''abc'')]) =
   (Inr ''fake response'',
    record_call test_session
      (post_call TEST_URI
        [(''data'',
          PDict [(''operations'',
                  PStr (json_dumps (PDict [(''query'', PStr ''query hello''),
                           (''variables'', PDict [(''name'', PStr ''John Doe'')])]))),
                 (''map'', PStr (json_dumps (PDict [(''0'', PStr ''[variables.message]'')])))]),
         (''files'', PDict [(''0'', PStr ''abc'')])])) \<and>
   check_values (PDict [(''0'', PStr ''abc'')]) = Inr ()"
proof -
  let ?fm = "[(''0'', PStr ''[variables.message]'')]"
  let ?fs = "[(''0'', PStr ''abc'')]"
  let ?v = "PDict [(''name'', PStr ''John Doe'')]"
  have u: "uri test_session = TEST_URI"
    "respond (session test_session) = (\<lambda>_. ''fake response'')"
    by (simp_all add: test_session_def init_def test_client_def)
  have h1: "set (map fst ?fm) = set (map fst [(''0'', PInt 7)])"
    by simp
  have h2: "truthy ?v \<and> ?fs \<noteq> [] \<and> dict_ok ?fs \<and> set (map fst ?fm) = set (map fst ?fs) \<and>
            (\<forall>v\<in>set (map snd ?fs). py_len v = Inr 3)"
    by (simp add: dict_ok_def)
  have h3: "length ''abc'' = 3"
    by simp
  note inst = no_shape_validation [of ?fm "[(''0'', PInt 7)]" ?v "PDict ?fs" ?fs
               "''query hello''" json_dumps test_session "''abc''" "''0''"]
  from inst h1 have first: "validate ?v (PDict ?fm) (PDict ?fs) =
                           validate ?v (PDict [(''0'', PInt 7)]) (PDict ?fs)"
    by blast
  from inst h2 have second:
    "(let operations = PDict [(''query'', PStr ''query hello''), (''variables'', ?v)];
          data = PDict [(''operations'', PStr (json_dumps operations)),
                        (''map'', PStr (json_dumps (PDict ?fm)))];
          call = post_call (uri test_session) [(''data'', data), (''files'', PDict ?fs)]
      in query json_dumps test_session ''query hello'' ?v (PDict ?fm) (PDict ?fs) =
           (Inr (respond (session test_session) call), record_call test_session call))"
    by blast
  from inst h3 have third: "check_values (PDict ?fs) = Inr ()"
    by blast
  from first second third show ?thesis
    by (simp only: Let_def u)
qed

end
